theory Spec2Isabelle
  imports Main
begin

section \<open>The book routes of the catalogue service\<close>

text \<open>
  The development embeds the four request handlers of \<^verbatim>\<open>src/routes/book.route.js\<close>
  (POST, GET, PUT and DELETE under \<^verbatim>\<open>/books\<close>) and the schema of
  \<^verbatim>\<open>src/models/book.model.js\<close>. A handler is a function from the collection and the
  request to the response and the collection afterwards. Every \<^verbatim>\<open>throw\<close> of a call inside
  a \<^verbatim>\<open>try\<close> block is a value \<open>Inl e\<close>, and the \<^verbatim>\<open>catch\<close> block is the branch
  that consumes it.

  The handlers are registered behind the \<^verbatim>\<open>verifyToken\<close> middleware; what is modelled is
  the handler body, which runs once that middleware has passed the request on.
\<close>

subsection \<open>Data\<close>

text \<open>
  An \<^verbatim>\<open>ObjectId\<close> is a 12-byte value, written as 24 hexadecimal digits; it is kept as the
  number those digits denote. A \<^verbatim>\<open>Date\<close> is its number of milliseconds since the epoch.
\<close>

type_synonym object_id = nat
type_synonym date = int

text \<open>
  A stored document of \<^verbatim>\<open>bookSchema\<close>. The four \<^verbatim>\<open>String\<close> paths always hold a
  string; \<^verbatim>\<open>publishedDate\<close> may hold \<^verbatim>\<open>null\<close> after an update (updates run no
  validators), which is \<open>None\<close>.
\<close>

record book =
  book_id :: object_id
  title :: string
  author :: string
  isbn :: string
  description :: string
  publishedDate :: "date option"

text \<open>
  \<^verbatim>\<open>req.body\<close> of POST and PUT: the five properties of the documented request schema,
  each a string that may be absent (\<open>None\<close> is \<^verbatim>\<open>undefined\<close>).
\<close>

record book_body =
  body_title :: "string option"
  body_author :: "string option"
  body_isbn :: "string option"
  body_description :: "string option"
  body_publishedDate :: "string option"

text \<open>
  \<^verbatim>\<open>req.query\<close> of GET. \<open>q_query\<close> and \<open>q_id\<close> are the raw strings. \<open>q_page\<close> is the
  number that \<^verbatim>\<open>page - 1\<close> coerces the raw parameter to: \<open>None\<close> is \<^verbatim>\<open>NaN\<close> (the
  parameter is absent or not numeric), \<open>Some p\<close> an integral page number in the range
  where JavaScript arithmetic is exact.
\<close>

record book_query =
  q_page :: "int option"
  q_query :: "string option"
  q_id :: "string option"

datatype error =
    ValidationError "string list"
  | CastError string
  | DuplicateKeyError
  | SyntaxError
  | MongoServerError

text \<open>
  The JSON bodies the handlers send:
  \<^item> \<open>Message m\<close> is \<^verbatim>\<open>{ message: m }\<close>;
  \<^item> \<open>ErrorMessage e\<close> is \<^verbatim>\<open>{ message: error.message }\<close>, the text being the library's;
  \<^item> \<open>MessageError m e\<close> is \<^verbatim>\<open>{ message: m, error: error.message }\<close>;
  \<^item> \<open>MessageBook m b\<close> is \<^verbatim>\<open>{ message: m, book: b }\<close>, with \<open>None\<close> for \<^verbatim>\<open>null\<close>;
  \<^item> \<open>OneBook b\<close> and \<open>Books bs\<close> are a document and an array of documents.
\<close>

datatype payload =
    Message string
  | ErrorMessage error
  | MessageError string error
  | MessageBook string "book option"
  | OneBook book
  | Books "book list"

record response =
  status :: nat
  body :: payload

text \<open>
  What the handlers use of the JavaScript runtime and of the database server and whose
  full definition lies outside the repository: the \<^verbatim>\<open>RegExp\<close> constructor with flag
  \<^verbatim>\<open>i\<close> (\<open>None\<close> when it throws a \<^verbatim>\<open>SyntaxError\<close>), the test of a compiled
  expression against a string, the parsing of a date string (\<open>None\<close> for an invalid
  date), and what the server makes of a skip of \<^verbatim>\<open>NaN\<close> (\<open>None\<close> when it rejects the
  command, \<open>Some k\<close> when it reads the value as the number \<open>k\<close>).
\<close>

record 'r platform =
  RegExp_new :: "string \<Rightarrow> 'r option"
  RegExp_test :: "'r \<Rightarrow> string \<Rightarrow> bool"
  Date_parse :: "string \<Rightarrow> date option"
  skip_NaN :: "nat option"

subsection \<open>JavaScript truthiness of an optional string\<close>

definition truthy :: "string option \<Rightarrow> bool" where
  "truthy v = (case v of None \<Rightarrow> False | Some s \<Rightarrow> s \<noteq> [])"

subsection \<open>The collection\<close>

text \<open>
  The collection is the list of its documents in natural (insertion) order. The
  operations below are those of the Mongoose model the handlers call.
\<close>

definition hex_digit :: "char \<Rightarrow> nat option" where
  "hex_digit c =
     (let n = (of_char c :: nat) in
      if 48 \<le> n \<and> n \<le> 57 then Some (n - 48)
      else if 97 \<le> n \<and> n \<le> 102 then Some (n - 87)
      else if 65 \<le> n \<and> n \<le> 70 then Some (n - 55)
      else None)"

fun hex_value :: "nat \<Rightarrow> string \<Rightarrow> nat option" where
  "hex_value acc [] = Some acc"
| "hex_value acc (c # cs) =
     (case hex_digit c of None \<Rightarrow> None | Some d \<Rightarrow> hex_value (16 * acc + d) cs)"

fun bytes_value :: "nat \<Rightarrow> string \<Rightarrow> nat" where
  "bytes_value acc [] = acc"
| "bytes_value acc (c # cs) = bytes_value (256 * acc + of_char c) cs"

text \<open>
  Casting a string to an \<^verbatim>\<open>ObjectId\<close>. A string of 12 characters that are 12 bytes
  (each below 128, so that its encoding is one byte) is the identifier with those bytes;
  a string of 24 hexadecimal digits is the identifier the digits denote; any other
  string is a \<^verbatim>\<open>CastError\<close>.
\<close>

definition castObjectId :: "string \<Rightarrow> error + object_id" where
  "castObjectId s =
     (if length s = 12 then
        (if list_all (\<lambda>c. (of_char c :: nat) < 128) s then Inr (bytes_value 0 s)
         else Inl (CastError ''_id''))
      else if length s = 24 then
        (case hex_value 0 s of None \<Rightarrow> Inl (CastError ''_id'') | Some n \<Rightarrow> Inr n)
      else Inl (CastError ''_id''))"

fun lookup :: "object_id \<Rightarrow> book list \<Rightarrow> book option" where
  "lookup oid [] = None"
| "lookup oid (b # bs) = (if book_id b = oid then Some b else lookup oid bs)"

definition findById :: "string \<Rightarrow> book list \<Rightarrow> error + book option" where
  "findById i store =
     (case castObjectId i of Inl e \<Rightarrow> Inl e | Inr oid \<Rightarrow> Inr (lookup oid store))"

text \<open>\<^verbatim>\<open>find({ $or: [{ title: re }, { author: re }] })\<close>\<close>

definition find_or :: "'r platform \<Rightarrow> 'r \<Rightarrow> book list \<Rightarrow> book list" where
  "find_or P re store =
     filter (\<lambda>b. RegExp_test P re (title b) \<or> RegExp_test P re (author b)) store"

text \<open>
  \<^verbatim>\<open>find().skip(skip).limit(limit)\<close>: the documents after the first \<open>skip\<close>, at most
  \<open>limit\<close> of them, a limit of 0 being no limit. The server rejects a negative skip;
  a skip of \<^verbatim>\<open>NaN\<close> (\<open>None\<close>) is handled as the platform says.
\<close>

definition window :: "nat \<Rightarrow> nat \<Rightarrow> book list \<Rightarrow> book list" where
  "window k limit store =
     (if limit = 0 then drop k store else take limit (drop k store))"

definition find_skip_limit ::
  "'r platform \<Rightarrow> int option \<Rightarrow> nat \<Rightarrow> book list \<Rightarrow> error + book list" where
  "find_skip_limit P skip limit store =
     (case skip of
        None \<Rightarrow>
          (case skip_NaN P of
             None \<Rightarrow> Inl MongoServerError
           | Some k \<Rightarrow> Inr (window k limit store))
      | Some k \<Rightarrow>
          if k < 0 then Inl MongoServerError
          else Inr (window (nat k) limit store))"

text \<open>
  \<^verbatim>\<open>new BookModel({...})\<close> casts each property to its schema type; a date that cannot
  be cast is remembered and reported by validation. \<^verbatim>\<open>save()\<close> validates the
  \<^verbatim>\<open>required\<close> paths (an empty string does not satisfy \<^verbatim>\<open>required\<close>) and inserts.
\<close>

datatype cast_date = NoDate | BadDate | GoodDate date

definition castDate :: "'r platform \<Rightarrow> string option \<Rightarrow> cast_date" where
  "castDate P v =
     (case v of
        None \<Rightarrow> NoDate
      | Some s \<Rightarrow>
          if s = [] then NoDate
          else (case Date_parse P s of None \<Rightarrow> BadDate | Some d \<Rightarrow> GoodDate d))"

record draft =
  draft_id :: object_id
  draft_title :: "string option"
  draft_author :: "string option"
  draft_isbn :: "string option"
  draft_description :: "string option"
  draft_publishedDate :: cast_date

definition new_BookModel :: "'r platform \<Rightarrow> object_id \<Rightarrow> book_body \<Rightarrow> draft" where
  "new_BookModel P oid b =
     \<lparr> draft_id = oid,
       draft_title = body_title b,
       draft_author = body_author b,
       draft_isbn = body_isbn b,
       draft_description = body_description b,
       draft_publishedDate = castDate P (body_publishedDate b) \<rparr>"

definition invalid_paths :: "draft \<Rightarrow> string list" where
  "invalid_paths d =
     (if truthy (draft_title d) then [] else [''title'']) @
     (if truthy (draft_author d) then [] else [''author'']) @
     (if truthy (draft_isbn d) then [] else [''isbn'']) @
     (if truthy (draft_description d) then [] else [''description'']) @
     (case draft_publishedDate d of GoodDate _ \<Rightarrow> [] | _ \<Rightarrow> [''publishedDate''])"

definition save :: "draft \<Rightarrow> book list \<Rightarrow> error + (book \<times> book list)" where
  "save d store =
     (if invalid_paths d \<noteq> [] then Inl (ValidationError (invalid_paths d))
      else if lookup (draft_id d) store \<noteq> None then Inl DuplicateKeyError
      else
        (case (draft_title d, draft_author d, draft_isbn d, draft_description d,
               draft_publishedDate d) of
           (Some t, Some a, Some i, Some ds, GoodDate pd) \<Rightarrow>
             (let doc = \<lparr> book_id = draft_id d, title = t, author = a, isbn = i,
                          description = ds, publishedDate = Some pd \<rparr>
              in Inr (doc, store @ [doc]))
         | _ \<Rightarrow> Inl (ValidationError (invalid_paths d))))"

text \<open>
  \<^verbatim>\<open>findByIdAndUpdate(id, body, { new: true })\<close>: the identifier is cast, then the update;
  the properties present in the body are set on the first document with that
  identifier, and the document after the update is returned, or \<^verbatim>\<open>null\<close> when there is
  none. An empty date string is cast to \<^verbatim>\<open>null\<close>.
\<close>

definition set_fields :: "book_body \<Rightarrow> cast_date \<Rightarrow> book \<Rightarrow> book" where
  "set_fields b pd doc =
     doc \<lparr> title := (case body_title b of None \<Rightarrow> title doc | Some t \<Rightarrow> t),
           author := (case body_author b of None \<Rightarrow> author doc | Some a \<Rightarrow> a),
           isbn := (case body_isbn b of None \<Rightarrow> isbn doc | Some i \<Rightarrow> i),
           description := (case body_description b of None \<Rightarrow> description doc | Some ds \<Rightarrow> ds),
           publishedDate :=
             (case body_publishedDate b of
                None \<Rightarrow> publishedDate doc
              | Some _ \<Rightarrow> (case pd of GoodDate d \<Rightarrow> Some d | _ \<Rightarrow> None)) \<rparr>"

fun replace_first :: "object_id \<Rightarrow> book \<Rightarrow> book list \<Rightarrow> book list" where
  "replace_first oid doc [] = []"
| "replace_first oid doc (b # bs) =
     (if book_id b = oid then doc # bs else b # replace_first oid doc bs)"

fun remove_first :: "object_id \<Rightarrow> book list \<Rightarrow> book list" where
  "remove_first oid [] = []"
| "remove_first oid (b # bs) =
     (if book_id b = oid then bs else b # remove_first oid bs)"

definition findByIdAndUpdate ::
  "'r platform \<Rightarrow> string \<Rightarrow> book_body \<Rightarrow> book list \<Rightarrow> error + (book option \<times> book list)" where
  "findByIdAndUpdate P i b store =
     (case castObjectId i of
        Inl e \<Rightarrow> Inl e
      | Inr oid \<Rightarrow>
          (case castDate P (body_publishedDate b) of
             BadDate \<Rightarrow> Inl (CastError ''publishedDate'')
           | pd \<Rightarrow>
               (case lookup oid store of
                  None \<Rightarrow> Inr (None, store)
                | Some doc \<Rightarrow>
                    Inr (Some (set_fields b pd doc),
                         replace_first oid (set_fields b pd doc) store))))"

definition findByIdAndDelete :: "string \<Rightarrow> book list \<Rightarrow> error + (book option \<times> book list)" where
  "findByIdAndDelete i store =
     (case castObjectId i of
        Inl e \<Rightarrow> Inl e
      | Inr oid \<Rightarrow> Inr (lookup oid store, remove_first oid store))"

subsection \<open>The handlers\<close>

text \<open>
  POST \<^verbatim>\<open>/books\<close>. \<open>oid\<close> is the identifier that \<^verbatim>\<open>new BookModel\<close> generates for the
  document.
\<close>

definition post_books ::
  "'r platform \<Rightarrow> object_id \<Rightarrow> book list \<Rightarrow> book_body \<Rightarrow> response \<times> book list" where
  "post_books P oid store b =
     (if \<not> truthy (body_title b) \<or> \<not> truthy (body_author b) \<or> \<not> truthy (body_isbn b) \<or>
         \<not> truthy (body_publishedDate b)
      then (\<lparr> status = 400, body = Message ''All fields are required'' \<rparr>, store)
      else
        (case save (new_BookModel P oid b) store of
           Inl e \<Rightarrow> (\<lparr> status = 400, body = ErrorMessage e \<rparr>, store)
         | Inr (newBook, store') \<Rightarrow>
             (\<lparr> status = 201, body = MessageBook ''Book created'' (Some newBook) \<rparr>, store')))"

text \<open>GET \<^verbatim>\<open>/books\<close>.\<close>

definition perPage :: nat where
  "perPage = 4"

definition get_books ::
  "'r platform \<Rightarrow> book list \<Rightarrow> book_query \<Rightarrow> response \<times> book list" where
  "get_books P store q =
     (let skip = map_option (\<lambda>page. (page - 1) * int perPage) (q_page q) in
      if truthy (q_id q) then
        (case findById (the (q_id q)) store of
           Inl e \<Rightarrow> (\<lparr> status = 400, body = MessageError ''Internal server error'' e \<rparr>, store)
         | Inr None \<Rightarrow> (\<lparr> status = 400, body = Message ''Book Not Found'' \<rparr>, store)
         | Inr (Some book) \<Rightarrow> (\<lparr> status = 200, body = OneBook book \<rparr>, store))
      else if truthy (q_query q) then
        (case RegExp_new P (the (q_query q)) of
           None \<Rightarrow>
             (\<lparr> status = 400, body = MessageError ''Internal server error'' SyntaxError \<rparr>, store)
         | Some searchRegex \<Rightarrow>
             (\<lparr> status = 200, body = Books (find_or P searchRegex store) \<rparr>, store))
      else
        (case find_skip_limit P skip perPage store of
           Inl e \<Rightarrow> (\<lparr> status = 400, body = MessageError ''Internal server error'' e \<rparr>, store)
         | Inr books \<Rightarrow> (\<lparr> status = 200, body = Books books \<rparr>, store)))"

text \<open>PUT \<^verbatim>\<open>/books/:id\<close>.\<close>

definition put_books ::
  "'r platform \<Rightarrow> book list \<Rightarrow> string \<Rightarrow> book_body \<Rightarrow> response \<times> book list" where
  "put_books P store i b =
     (case findByIdAndUpdate P i b store of
        Inl e \<Rightarrow> (\<lparr> status = 400, body = MessageError ''Internal server error'' e \<rparr>, store)
      | Inr (updatedBook, store') \<Rightarrow>
          (\<lparr> status = 200, body = MessageBook ''Book updated'' updatedBook \<rparr>, store'))"

text \<open>DELETE \<^verbatim>\<open>/books/:id\<close>.\<close>

definition delete_books :: "book list \<Rightarrow> string \<Rightarrow> response \<times> book list" where
  "delete_books store i =
     (case findByIdAndDelete i store of
        Inl e \<Rightarrow> (\<lparr> status = 400, body = MessageError ''Internal server error'' e \<rparr>, store)
      | Inr (deletedBook, store') \<Rightarrow>
          (\<lparr> status = 200, body = MessageBook ''Book deleted'' deletedBook \<rparr>, store'))"

subsection \<open>The modes of GET, one per branch of the handler\<close>

definition id_mode :: "book list \<Rightarrow> string \<Rightarrow> response \<times> book list" where
  "id_mode store i =
     (case findById i store of
        Inl e \<Rightarrow> (\<lparr> status = 400, body = MessageError ''Internal server error'' e \<rparr>, store)
      | Inr None \<Rightarrow> (\<lparr> status = 400, body = Message ''Book Not Found'' \<rparr>, store)
      | Inr (Some book) \<Rightarrow> (\<lparr> status = 200, body = OneBook book \<rparr>, store))"

definition query_mode :: "'r platform \<Rightarrow> book list \<Rightarrow> string \<Rightarrow> response \<times> book list" where
  "query_mode P store s =
     (case RegExp_new P s of
        None \<Rightarrow>
          (\<lparr> status = 400, body = MessageError ''Internal server error'' SyntaxError \<rparr>, store)
      | Some searchRegex \<Rightarrow>
          (\<lparr> status = 200, body = Books (find_or P searchRegex store) \<rparr>, store))"

definition page_mode :: "'r platform \<Rightarrow> book list \<Rightarrow> int option \<Rightarrow> response \<times> book list" where
  "page_mode P store page =
     (case find_skip_limit P (map_option (\<lambda>p. (p - 1) * int perPage) page) perPage store of
        Inl e \<Rightarrow> (\<lparr> status = 400, body = MessageError ''Internal server error'' e \<rparr>, store)
      | Inr books \<Rightarrow> (\<lparr> status = 200, body = Books books \<rparr>, store))"

text \<open>
  The selection of the mode read literally from the specification: a parameter counts
  as soon as it is present in the request, whatever its value.
\<close>

definition get_books_by_presence ::
  "'r platform \<Rightarrow> book list \<Rightarrow> book_query \<Rightarrow> response \<times> book list" where
  "get_books_by_presence P store q =
     (case q_id q of
        Some i \<Rightarrow> id_mode store i
      | None \<Rightarrow>
          (case q_query q of
             Some s \<Rightarrow> query_mode P store s
           | None \<Rightarrow> page_mode P store (q_page q)))"

subsection \<open>Case-insensitive substrings\<close>

text \<open>
  The specification's notion of a search: the title or the author contains the query
  as a substring, letters compared without regard to case. Characters are ASCII;
  \<open>canonicalize\<close> gives the code of the upper-case form of a character.
\<close>

definition canonicalize :: "char \<Rightarrow> nat" where
  "canonicalize c =
     (let n = (of_char c :: nat) in if 97 \<le> n \<and> n \<le> 122 then n - 32 else n)"

fun starts_with :: "string \<Rightarrow> string \<Rightarrow> bool" where
  "starts_with [] s = True"
| "starts_with (c # cs) [] = False"
| "starts_with (c # cs) (d # ds) = (canonicalize c = canonicalize d \<and> starts_with cs ds)"

fun ci_contains :: "string \<Rightarrow> string \<Rightarrow> bool" where
  "ci_contains q [] = (q = [])"
| "ci_contains q (c # s) = (starts_with q (c # s) \<or> ci_contains q s)"

definition matches_query :: "string \<Rightarrow> book \<Rightarrow> bool" where
  "matches_query s b = (ci_contains s (title b) \<or> ci_contains s (author b))"

text \<open>
  The syntax characters of a JavaScript pattern. A pattern without any of them is a
  sequence of pattern characters, each of which matches itself; with flag \<^verbatim>\<open>i\<close> the
  comparison is on canonicalized characters. \<open>literal_RegExp\<close> says that of a platform.
\<close>

definition syntax_character :: "char \<Rightarrow> bool" where
  "syntax_character c = (c \<in> set (CHR 0x5C # ''^$.*+?()[]{}|''))"

definition literal_RegExp :: "'r platform \<Rightarrow> bool" where
  "literal_RegExp P =
     (\<forall>s. \<not> list_ex syntax_character s \<longrightarrow>
        (\<exists>re. RegExp_new P s = Some re \<and> (\<forall>t. RegExp_test P re t = ci_contains s t)))"

subsection \<open>Well-formed collections and kinds of response\<close>

text \<open>The collection has a unique index on \<^verbatim>\<open>_id\<close>.\<close>

definition wf_store :: "book list \<Rightarrow> bool" where
  "wf_store store = distinct (map book_id store)"


subsection \<open>Concrete requests\<close>

text \<open>
  A platform on which the handlers can be evaluated: it compiles the patterns without
  syntax characters and rejects the others, as JavaScript rejects the unterminated
  group \<^verbatim>\<open>(\<close>, it parses the dates of the repository's own tests, and its server
  reads a skip of \<^verbatim>\<open>NaN\<close> as 0.
\<close>

definition literal_platform :: "string platform" where
  "literal_platform =
     \<lparr> RegExp_new = (\<lambda>s. if list_ex syntax_character s then None else Some s),
       RegExp_test = ci_contains,
       Date_parse = (\<lambda>s. if s = ''2023-01-01'' then Some 1672531200000
                          else if s = ''2023-03-01'' then Some 1677628800000
                          else None),
       skip_NaN = Some 0 \<rparr>"

definition sample_book :: "object_id \<Rightarrow> string \<Rightarrow> string \<Rightarrow> book" where
  "sample_book oid t a =
     \<lparr> book_id = oid, title = t, author = a, isbn = ''1234567890'',
       description = ''A sample book description'', publishedDate = Some 1672531200000 \<rparr>"

definition sample_store :: "book list" where
  "sample_store =
     [ sample_book 0x64b7f0c2a1b2c3d4e5f60718 ''Sample Book'' ''John Doe'',
       sample_book 0x64b7f0c2a1b2c3d4e5f60719 ''Dune'' ''Frank Herbert'',
       sample_book 0x64b7f0c2a1b2c3d4e5f6071a ''Emma'' ''Jane Austen'',
       sample_book 0x64b7f0c2a1b2c3d4e5f6071b ''Ulysses'' ''James Joyce'',
       sample_book 0x64b7f0c2a1b2c3d4e5f6071c ''Walden'' ''Henry Thoreau'',
       sample_book 0x64b7f0c2a1b2c3d4e5f6071d ''Sample Poems'' ''Jane Doe'' ]"

definition sample_body :: book_body where
  "sample_body =
     \<lparr> body_title = Some ''Sample Book'', body_author = Some ''John Doe'',
       body_isbn = Some ''1234567890'',
       body_description = Some ''A sample book description'',
       body_publishedDate = Some ''2023-01-01'' \<rparr>"

section \<open>Properties\<close>

subsection \<open>Auxiliary facts\<close>

lemma truthy_iff: "truthy v \<longleftrightarrow> v \<noteq> None \<and> v \<noteq> Some []"
  by (cases v) (simp_all add: truthy_def)

lemma castObjectId_length: "castObjectId i = Inr oid \<Longrightarrow> length i = 12 \<or> length i = 24"
  by (simp add: castObjectId_def split: if_splits)

lemma castObjectId_truthy: "castObjectId i = Inr oid \<Longrightarrow> truthy (Some i)"
  by (auto simp: truthy_def dest: castObjectId_length)

lemma castObjectId_error: "isl (castObjectId i) \<Longrightarrow> castObjectId i = Inl (CastError ''_id'')"
  by (simp add: castObjectId_def split: if_splits option.splits)

lemma lookup_None_iff: "lookup oid store = None \<longleftrightarrow> oid \<notin> book_id ` set store"
  by (induction store) auto

lemma lookup_SomeD: "lookup oid store = Some b \<Longrightarrow> b \<in> set store \<and> book_id b = oid"
  by (induction store) (auto split: if_splits)

lemma lookup_member:
  "wf_store store \<Longrightarrow> b \<in> set store \<Longrightarrow> lookup (book_id b) store = Some b"
  unfolding wf_store_def by (induction store) force+

lemma remove_first_absent: "lookup oid store = None \<Longrightarrow> remove_first oid store = store"
  by (induction store) (auto split: if_splits)

lemma remove_first_filter:
  "wf_store store \<Longrightarrow> remove_first oid store = filter (\<lambda>x. book_id x \<noteq> oid) store"
  unfolding wf_store_def
proof (induction store)
  case Nil
  then show ?case by simp
next
  case (Cons b bs)
  from Cons.prems have "book_id b \<notin> book_id ` set bs" by simp
  then have "\<forall>x\<in>set bs. book_id x \<noteq> book_id b" by (metis imageI)
  then have "filter (\<lambda>x. book_id x \<noteq> book_id b) bs = bs" by (simp add: filter_id_conv)
  with Cons show ?case by auto
qed

lemma lookup_filter_removed: "lookup oid (filter (\<lambda>x. book_id x \<noteq> oid) store) = None"
  by (induction store) auto

lemma filter_other_ids:
  assumes "wf_store store" and "b \<in> set store"
  shows "filter (\<lambda>x. book_id x \<noteq> book_id b) store = removeAll b store"
proof -
  have "\<forall>x \<in> set store. (book_id x \<noteq> book_id b) = (b \<noteq> x)"
    using assms unfolding wf_store_def by (auto simp: distinct_map inj_on_def)
  then have "filter (\<lambda>x. book_id x \<noteq> book_id b) store = filter (\<lambda>x. b \<noteq> x) store"
    by (simp cong: filter_cong)
  then show ?thesis by (simp add: removeAll_filter_not_eq)
qed

lemma replace_first_ids:
  "book_id doc = oid \<Longrightarrow> map book_id (replace_first oid doc store) = map book_id store"
  by (induction store) auto

text \<open>
  A substring in the usual sense: \<open>ci_contains q s\<close> holds exactly when the
  canonicalized \<open>s\<close> is some \<open>u\<close>, then the canonicalized \<open>q\<close>, then some \<open>v\<close>.
\<close>

lemma starts_with_prefix:
  "starts_with q s \<longleftrightarrow> (\<exists>v. map canonicalize s = map canonicalize q @ v)"
  by (induction q s rule: starts_with.induct) auto

lemma ci_contains_substring:
  "ci_contains q s \<longleftrightarrow> (\<exists>u v. map canonicalize s = u @ map canonicalize q @ v)"
proof (induction s)
  case Nil
  then show ?case by auto
next
  case (Cons c s)
  have "(\<exists>u v. map canonicalize (c # s) = u @ map canonicalize q @ v) \<longleftrightarrow>
        (\<exists>v. map canonicalize (c # s) = map canonicalize q @ v) \<or>
        (\<exists>u v. map canonicalize s = u @ map canonicalize q @ v)"
  proof
    assume "\<exists>u v. map canonicalize (c # s) = u @ map canonicalize q @ v"
    then obtain u v where e: "map canonicalize (c # s) = u @ map canonicalize q @ v" by blast
    show "(\<exists>v. map canonicalize (c # s) = map canonicalize q @ v) \<or>
          (\<exists>u v. map canonicalize s = u @ map canonicalize q @ v)"
    proof (cases u)
      case Nil
      with e show ?thesis by auto
    next
      case (Cons x u')
      with e have "map canonicalize s = u' @ map canonicalize q @ v" by simp
      then show ?thesis by blast
    qed
  next
    assume "(\<exists>v. map canonicalize (c # s) = map canonicalize q @ v) \<or>
            (\<exists>u v. map canonicalize s = u @ map canonicalize q @ v)"
    then show "\<exists>u v. map canonicalize (c # s) = u @ map canonicalize q @ v"
    proof
      assume "\<exists>v. map canonicalize (c # s) = map canonicalize q @ v"
      then obtain v where "map canonicalize (c # s) = [] @ map canonicalize q @ v" by auto
      then show ?thesis by blast
    next
      assume "\<exists>u v. map canonicalize s = u @ map canonicalize q @ v"
      then obtain u v where "map canonicalize s = u @ map canonicalize q @ v" by blast
      then have "map canonicalize (c # s) = (canonicalize c # u) @ map canonicalize q @ v"
        by simp
      then show ?thesis by blast
    qed
  qed
  with Cons show ?case by (simp add: starts_with_prefix)
qed

text \<open>The handlers keep the identifiers of the collection distinct.\<close>

lemma wf_store_empty: "wf_store []"
  by (simp add: wf_store_def)

lemma post_books_wf: "wf_store store \<Longrightarrow> wf_store (snd (post_books P oid store b))"
  by (auto simp: post_books_def save_def wf_store_def lookup_None_iff Let_def
      split: sum.split prod.split option.splits cast_date.splits if_splits)

lemma put_books_wf: "wf_store store \<Longrightarrow> wf_store (snd (put_books P store i b))"
  by (auto simp: put_books_def findByIdAndUpdate_def wf_store_def replace_first_ids
      set_fields_def dest!: lookup_SomeD
      split: sum.split prod.split option.splits cast_date.splits if_splits)

lemma delete_books_wf: "wf_store store \<Longrightarrow> wf_store (snd (delete_books store i))"
proof -
  assume w: "wf_store store"
  then have "\<And>oid. wf_store (remove_first oid store)"
    by (simp add: remove_first_filter) (simp add: wf_store_def distinct_map_filter)
  then show ?thesis
    using w by (simp add: delete_books_def findByIdAndDelete_def split: sum.split)
qed

text \<open>When does \<open>save\<close> succeed, and with what.\<close>

lemma save_Inr_iff:
  "save d store = Inr (doc, store') \<longleftrightarrow>
     (\<exists>t a i ds pd. draft_title d = Some t \<and> t \<noteq> [] \<and> draft_author d = Some a \<and> a \<noteq> [] \<and>
        draft_isbn d = Some i \<and> i \<noteq> [] \<and> draft_description d = Some ds \<and> ds \<noteq> [] \<and>
        draft_publishedDate d = GoodDate pd \<and> lookup (draft_id d) store = None \<and>
        doc = \<lparr> book_id = draft_id d, title = t, author = a, isbn = i, description = ds,
                publishedDate = Some pd \<rparr> \<and>
        store' = store @ [doc])"
  by (cases "draft_title d"; cases "draft_author d"; cases "draft_isbn d";
      cases "draft_description d"; cases "draft_publishedDate d")
     (auto simp: save_def invalid_paths_def truthy_def Let_def)

text \<open>GET, branch by branch.\<close>

lemma get_books_modes:
  "get_books P store q =
     (if truthy (q_id q) then id_mode store (the (q_id q))
      else if truthy (q_query q) then query_mode P store (the (q_query q))
      else page_mode P store (q_page q))"
  by (simp add: get_books_def id_mode_def query_mode_def page_mode_def Let_def)

lemma get_books_query:
  assumes "\<not> truthy (q_id q)" and "q_query q = Some s" and "s \<noteq> []"
  shows "get_books P store q =
           (case RegExp_new P s of
              None \<Rightarrow>
                (\<lparr> status = 400, body = MessageError ''Internal server error'' SyntaxError \<rparr>,
                 store)
            | Some re \<Rightarrow>
                (\<lparr> status = 200,
                   body = Books (filter (\<lambda>b. RegExp_test P re (title b) \<or>
                                              RegExp_test P re (author b)) store) \<rparr>, store))"
  using assms
  by (simp add: get_books_modes query_mode_def find_or_def truthy_def split: option.split)





text \<open>Facts about the concrete platform and collection.\<close>

lemma literal_platform_literal: "literal_RegExp literal_platform"
  by (simp add: literal_RegExp_def literal_platform_def)

lemma wf_sample_store: "wf_store sample_store"
  by (simp add: wf_store_def sample_store_def sample_book_def)

lemma cast_sample_id:
  "castObjectId ''64b7f0c2a1b2c3d4e5f60719'' = Inr 0x64b7f0c2a1b2c3d4e5f60719"
  by (simp add: castObjectId_def hex_digit_def)

lemma cast_unknown_id:
  "castObjectId ''64b7f0c2a1b2c3d4e5f607ff'' = Inr 0x64b7f0c2a1b2c3d4e5f607ff"
  by (simp add: castObjectId_def hex_digit_def)

lemma cast_invalid_id: "isl (castObjectId ''invalid_id'')"
  by (simp add: castObjectId_def)

lemma cast_twelve_bytes: "castObjectId ''invalid_id12'' = Inr 0x696e76616c69645f69643132"
  by (simp add: castObjectId_def)

subsection \<open>Creating a book\<close>

text \<open>
  Claim C1. If one of title, author, isbn and publishedDate is absent or empty, POST
  answers 400 with the message "All fields are required" and the collection is as
  before. The description is not part of that check: when the four are there, the
  answer is never that message, whatever the description is.
\<close>

theorem post_books_required_fields:
  "(body_title b \<in> {None, Some []} \<or> body_author b \<in> {None, Some []} \<or>
    body_isbn b \<in> {None, Some []} \<or> body_publishedDate b \<in> {None, Some []} \<longrightarrow>
      post_books P oid store b =
        (\<lparr> status = 400, body = Message ''All fields are required'' \<rparr>, store)) \<and>
   (body_title b \<notin> {None, Some []} \<and> body_author b \<notin> {None, Some []} \<and>
    body_isbn b \<notin> {None, Some []} \<and> body_publishedDate b \<notin> {None, Some []} \<longrightarrow>
      body (fst (post_books P oid store b)) \<noteq> Message ''All fields are required'')"
  by (auto simp: post_books_def truthy_iff split: sum.split prod.split)

theorem post_books_required_fields_witness:
  "post_books literal_platform 0x64b7f0c2a1b2c3d4e5f6071e sample_store
     (sample_body \<lparr> body_isbn := Some [] \<rparr>) =
     (\<lparr> status = 400, body = Message ''All fields are required'' \<rparr>, sample_store) \<and>
   body (fst (post_books literal_platform 0x64b7f0c2a1b2c3d4e5f6071e sample_store
     (sample_body \<lparr> body_description := None \<rparr>))) \<noteq> Message ''All fields are required''"
  using post_books_required_fields
          [of "sample_body \<lparr> body_isbn := Some [] \<rparr>" literal_platform
              "0x64b7f0c2a1b2c3d4e5f6071e" sample_store]
        post_books_required_fields
          [of "sample_body \<lparr> body_description := None \<rparr>" literal_platform
              "0x64b7f0c2a1b2c3d4e5f6071e" sample_store]
  by (simp add: sample_body_def)

text \<open>
  What the description's absence does lead to: the schema's validation refuses the
  document when it is saved.
\<close>

lemma post_books_description_missing:
  assumes "truthy (body_title b)" and "truthy (body_author b)" and "truthy (body_isbn b)"
    and "body_publishedDate b = Some s" and "s \<noteq> []" and "Date_parse P s = Some d"
    and "\<not> truthy (body_description b)"
  shows "post_books P oid store b =
           (\<lparr> status = 400, body = ErrorMessage (ValidationError [''description'']) \<rparr>, store)"
  using assms
  by (simp add: post_books_def save_def invalid_paths_def new_BookModel_def castDate_def
      truthy_def)

text \<open>
  Claim C7. When the five fields are present and non-empty and saving the new document
  succeeds, POST answers 201 with the message "Book created" and the saved document.
  Its title, author, isbn and description are the strings of the request, its
  publishedDate is the date the request's string denotes, and its identifier is the
  generated one, which no document of the collection had; the document is appended to
  the collection.
\<close>

theorem post_books_created:
  assumes "body_title b = Some t" and "t \<noteq> []"
    and "body_author b = Some a" and "a \<noteq> []"
    and "body_isbn b = Some n" and "n \<noteq> []"
    and "body_description b = Some ds" and "ds \<noteq> []"
    and "body_publishedDate b = Some pd" and "pd \<noteq> []"
    and "save (new_BookModel P oid b) store = Inr (doc, store')"
  shows "post_books P oid store b =
           (\<lparr> status = 201, body = MessageBook ''Book created'' (Some doc) \<rparr>, store') \<and>
         title doc = t \<and> author doc = a \<and> isbn doc = n \<and> description doc = ds \<and>
         (\<exists>d. Date_parse P pd = Some d \<and> publishedDate doc = Some d) \<and>
         book_id doc = oid \<and> oid \<notin> book_id ` set store \<and> store' = store @ [doc]"
proof -
  have r: "post_books P oid store b =
      (\<lparr> status = 201, body = MessageBook ''Book created'' (Some doc) \<rparr>, store')"
    using assms by (simp add: post_books_def truthy_def)
  obtain d where d: "castDate P (body_publishedDate b) = GoodDate d"
    and doc: "doc = \<lparr> book_id = oid, title = t, author = a, isbn = n, description = ds,
                      publishedDate = Some d \<rparr>"
    and l: "lookup oid store = None" and s: "store' = store @ [doc]"
    using assms(1,3,5,7,11) unfolding save_Inr_iff by (auto simp: new_BookModel_def)
  have "Date_parse P pd = Some d"
    using d assms(9,10) by (simp add: castDate_def split: option.splits)
  then show ?thesis using r doc l s by (simp add: lookup_None_iff)
qed

theorem post_books_created_witness:
  "post_books literal_platform 0x64b7f0c2a1b2c3d4e5f6071e sample_store sample_body =
     (\<lparr> status = 201,
        body = MessageBook ''Book created''
                 (Some (sample_book 0x64b7f0c2a1b2c3d4e5f6071e ''Sample Book'' ''John Doe'')) \<rparr>,
      sample_store @ [sample_book 0x64b7f0c2a1b2c3d4e5f6071e ''Sample Book'' ''John Doe''])"
proof -
  have s: "save (new_BookModel literal_platform 0x64b7f0c2a1b2c3d4e5f6071e sample_body)
             sample_store =
             Inr (sample_book 0x64b7f0c2a1b2c3d4e5f6071e ''Sample Book'' ''John Doe'',
                  sample_store @
                  [sample_book 0x64b7f0c2a1b2c3d4e5f6071e ''Sample Book'' ''John Doe''])"
    by (simp add: save_def invalid_paths_def new_BookModel_def castDate_def truthy_def
        literal_platform_def sample_body_def sample_book_def sample_store_def Let_def)
  show ?thesis
    using post_books_created
            [of sample_body "''Sample Book''" "''John Doe''" "''1234567890''"
                "''A sample book description''" "''2023-01-01''" literal_platform
                "0x64b7f0c2a1b2c3d4e5f6071e" sample_store
                "sample_book 0x64b7f0c2a1b2c3d4e5f6071e ''Sample Book'' ''John Doe''"
                "sample_store @
                 [sample_book 0x64b7f0c2a1b2c3d4e5f6071e ''Sample Book'' ''John Doe'']"] s
    by (simp add: sample_body_def)
qed

subsection \<open>Listing, searching and fetching\<close>

text \<open>
  Claim C2, for the queries that are literal patterns. On a platform whose patterns
  without syntax characters match literally, and with no id, a non-empty query without
  syntax characters makes GET answer 200 with exactly the documents whose title or
  author contains the query as a case-insensitive substring, in the collection's order
  and without pagination.
\<close>

theorem get_books_query_literal:
  assumes "literal_RegExp P" and "q_id q \<in> {None, Some []}" and "q_query q = Some s"
    and "s \<noteq> []" and "\<not> list_ex syntax_character s"
  shows "get_books P store q =
           (\<lparr> status = 200, body = Books (filter (matches_query s) store) \<rparr>, store)"
proof -
  obtain re where re: "RegExp_new P s = Some re"
    and t: "\<forall>t. RegExp_test P re t = ci_contains s t"
    using assms(1,5) unfolding literal_RegExp_def by blast
  have "\<not> truthy (q_id q)" using assms(2) by (auto simp: truthy_def)
  then have "get_books P store q =
      (\<lparr> status = 200,
         body = Books (filter (\<lambda>b. RegExp_test P re (title b) \<or> RegExp_test P re (author b))
                         store) \<rparr>, store)"
    using get_books_query [of q s P store] assms(3,4) re by simp
  moreover have "(\<lambda>b. RegExp_test P re (title b) \<or> RegExp_test P re (author b)) = matches_query s"
    using t by (simp add: matches_query_def fun_eq_iff)
  ultimately show ?thesis by simp
qed

theorem get_books_query_literal_witness:
  "get_books literal_platform sample_store \<lparr> q_page = Some 2, q_query = Some ''doe'', q_id = None \<rparr> =
     (\<lparr> status = 200,
        body = Books [ sample_book 0x64b7f0c2a1b2c3d4e5f60718 ''Sample Book'' ''John Doe'',
                       sample_book 0x64b7f0c2a1b2c3d4e5f6071d ''Sample Poems'' ''Jane Doe'' ] \<rparr>,
      sample_store)"
proof -
  have s: "\<not> list_ex syntax_character ''doe''"
    by (simp add: syntax_character_def)
  have f: "filter (matches_query ''doe'') sample_store =
             [ sample_book 0x64b7f0c2a1b2c3d4e5f60718 ''Sample Book'' ''John Doe'',
               sample_book 0x64b7f0c2a1b2c3d4e5f6071d ''Sample Poems'' ''Jane Doe'' ]"
    by (simp add: matches_query_def sample_store_def sample_book_def canonicalize_def)
  show ?thesis
    using get_books_query_literal
            [OF literal_platform_literal, of
               "\<lparr> q_page = Some 2, q_query = Some ''doe'', q_id = None \<rparr>" "''doe''" sample_store]
          s f
    by simp
qed

text \<open>
  A query is compiled as a pattern, so one with syntax characters is not searched for
  as a substring: the unterminated group \<^verbatim>\<open>(\<close> is no pattern, the constructor
  throws, and the answer is 400 instead of the list of the documents that contain it.
\<close>

theorem get_books_query_metacharacter_counterexample:
  "get_books literal_platform sample_store \<lparr> q_page = None, q_query = Some ''('', q_id = None \<rparr> =
     (\<lparr> status = 400, body = MessageError ''Internal server error'' SyntaxError \<rparr>, sample_store) \<and>
   get_books literal_platform sample_store \<lparr> q_page = None, q_query = Some ''('', q_id = None \<rparr> \<noteq>
     (\<lparr> status = 200, body = Books (filter (matches_query ''('') sample_store) \<rparr>, sample_store)"
  by (simp add: get_books_def truthy_def literal_platform_def syntax_character_def)

text \<open>
  Claim C3. With no id and no query, and a page number \<open>p\<close> of at least 1, GET
  answers 200 with the documents at positions \<open>4 * (p - 1)\<close> to \<open>4 * (p - 1) + 3\<close> of
  the collection's order, as many of them as exist. With more than four documents
  page 1 holds exactly four, and page 2 holds the next four at most, starting at
  position 4.
\<close>

theorem get_books_page:
  assumes "\<not> truthy (q_id q)" and "\<not> truthy (q_query q)" and "q_page q = Some p" and "1 \<le> p"
  shows "get_books P store q =
           (\<lparr> status = 200, body = Books (take 4 (drop (4 * nat (p - 1)) store)) \<rparr>, store) \<and>
         length (take 4 (drop (4 * nat (p - 1)) store)) = min 4 (length store - 4 * nat (p - 1)) \<and>
         (\<forall>k < length (take 4 (drop (4 * nat (p - 1)) store)).
            take 4 (drop (4 * nat (p - 1)) store) ! k = store ! (4 * nat (p - 1) + k)) \<and>
         (4 < length store \<and> p = 1 \<longrightarrow> length (take 4 (drop (4 * nat (p - 1)) store)) = 4) \<and>
         (p = 2 \<longrightarrow> take 4 (drop (4 * nat (p - 1)) store) = take 4 (drop 4 store))"
proof -
  have skip: "nat (p * 4 - 4) = 4 * nat (p - 1)"
    using assms(4) by arith
  have "get_books P store q =
          (\<lparr> status = 200, body = Books (take 4 (drop (4 * nat (p - 1)) store)) \<rparr>, store)"
    using assms
    by (simp add: get_books_def Let_def find_skip_limit_def window_def perPage_def skip)
  moreover have "length (take 4 (drop (4 * nat (p - 1)) store)) =
                   min 4 (length store - 4 * nat (p - 1))"
    by (simp add: min.commute)
  moreover have "\<forall>k < length (take 4 (drop (4 * nat (p - 1)) store)).
            take 4 (drop (4 * nat (p - 1)) store) ! k = store ! (4 * nat (p - 1) + k)"
  proof (intro allI impI)
    fix k
    assume "k < length (take 4 (drop (4 * nat (p - 1)) store))"
    then have "k < 4" and "4 * nat (p - 1) \<le> length store" by auto
    then show "take 4 (drop (4 * nat (p - 1)) store) ! k = store ! (4 * nat (p - 1) + k)"
      by simp
  qed
  moreover have "4 < length store \<and> p = 1 \<longrightarrow> length (take 4 (drop (4 * nat (p - 1)) store)) = 4"
    by simp
  moreover have "p = 2 \<longrightarrow> take 4 (drop (4 * nat (p - 1)) store) = take 4 (drop 4 store)"
    by simp
  ultimately show ?thesis by blast
qed

theorem get_books_page_witness:
  "get_books literal_platform sample_store \<lparr> q_page = Some 1, q_query = None, q_id = None \<rparr> =
     (\<lparr> status = 200,
        body = Books [ sample_book 0x64b7f0c2a1b2c3d4e5f60718 ''Sample Book'' ''John Doe'',
                       sample_book 0x64b7f0c2a1b2c3d4e5f60719 ''Dune'' ''Frank Herbert'',
                       sample_book 0x64b7f0c2a1b2c3d4e5f6071a ''Emma'' ''Jane Austen'',
                       sample_book 0x64b7f0c2a1b2c3d4e5f6071b ''Ulysses'' ''James Joyce'' ] \<rparr>,
      sample_store) \<and>
   get_books literal_platform sample_store \<lparr> q_page = Some 2, q_query = None, q_id = None \<rparr> =
     (\<lparr> status = 200,
        body = Books [ sample_book 0x64b7f0c2a1b2c3d4e5f6071c ''Walden'' ''Henry Thoreau'',
                       sample_book 0x64b7f0c2a1b2c3d4e5f6071d ''Sample Poems'' ''Jane Doe'' ] \<rparr>,
      sample_store)"
  using get_books_page
          [of "\<lparr> q_page = Some 1, q_query = None, q_id = None \<rparr>" 1 literal_platform sample_store]
        get_books_page
          [of "\<lparr> q_page = Some 2, q_query = None, q_id = None \<rparr>" 2 literal_platform sample_store]
  by (simp add: truthy_def sample_store_def)

text \<open>
  Claim C4, with a parameter counting when it is present and not empty. A non-empty id
  selects the id mode, whatever query and page are; otherwise a non-empty query selects
  the query mode, whatever page is; otherwise the page mode runs.
\<close>

theorem get_books_mode_priority:
  "(\<forall>i. q_id q = Some i \<and> i \<noteq> [] \<longrightarrow> get_books P store q = id_mode store i) \<and>
   (\<forall>s. q_id q \<in> {None, Some []} \<and> q_query q = Some s \<and> s \<noteq> [] \<longrightarrow>
      get_books P store q = query_mode P store s) \<and>
   (q_id q \<in> {None, Some []} \<and> q_query q \<in> {None, Some []} \<longrightarrow>
      get_books P store q = page_mode P store (q_page q))"
  by (auto simp: get_books_modes truthy_def)

theorem get_books_mode_priority_witness:
  "get_books literal_platform sample_store
     \<lparr> q_page = Some 1, q_query = Some ''doe'', q_id = Some ''64b7f0c2a1b2c3d4e5f60719'' \<rparr> =
     id_mode sample_store ''64b7f0c2a1b2c3d4e5f60719'' \<and>
   get_books literal_platform sample_store
     \<lparr> q_page = Some 1, q_query = Some ''doe'', q_id = None \<rparr> =
     query_mode literal_platform sample_store ''doe'' \<and>
   get_books literal_platform sample_store
     \<lparr> q_page = Some 1, q_query = Some [], q_id = Some [] \<rparr> =
     page_mode literal_platform sample_store (Some 1)"
  using get_books_mode_priority
          [of "\<lparr> q_page = Some 1, q_query = Some ''doe'', q_id = Some ''64b7f0c2a1b2c3d4e5f60719'' \<rparr>"
              literal_platform sample_store]
        get_books_mode_priority
          [of "\<lparr> q_page = Some 1, q_query = Some ''doe'', q_id = None \<rparr>"
              literal_platform sample_store]
        get_books_mode_priority
          [of "\<lparr> q_page = Some 1, q_query = Some [], q_id = Some [] \<rparr>"
              literal_platform sample_store]
  by simp

text \<open>
  Presence alone does not select a mode: with an id that is present and empty, the
  handler answers with a page of documents, where the id mode would answer 400.
\<close>

theorem get_books_empty_id_counterexample:
  "q_id \<lparr> q_page = Some 1, q_query = None, q_id = Some [] \<rparr> \<noteq> None \<and>
   get_books literal_platform sample_store \<lparr> q_page = Some 1, q_query = None, q_id = Some [] \<rparr> \<noteq>
     get_books_by_presence literal_platform sample_store
       \<lparr> q_page = Some 1, q_query = None, q_id = Some [] \<rparr> \<and>
   status (fst (get_books literal_platform sample_store
     \<lparr> q_page = Some 1, q_query = None, q_id = Some [] \<rparr>)) = 200 \<and>
   status (fst (id_mode sample_store [])) = 400"
  by (simp add: get_books_def get_books_by_presence_def id_mode_def findById_def castObjectId_def
      truthy_def find_skip_limit_def window_def perPage_def)

text \<open>
  Claim C5. In the id mode, that is with an id that is not empty: fetching by the
  identifier of a document of the collection answers 200 with that document; by a
  well-formed identifier that no document has, 400 with the message "Book Not Found";
  by a string that is no identifier, 400.
\<close>

theorem get_books_by_id:
  assumes "q_id q = Some i" and "i \<noteq> []"
  shows "(wf_store store \<and> b \<in> set store \<and> castObjectId i = Inr (book_id b) \<longrightarrow>
            get_books P store q = (\<lparr> status = 200, body = OneBook b \<rparr>, store)) \<and>
         (castObjectId i = Inr oid \<and> oid \<notin> book_id ` set store \<longrightarrow>
            get_books P store q = (\<lparr> status = 400, body = Message ''Book Not Found'' \<rparr>, store)) \<and>
         (isl (castObjectId i) \<longrightarrow>
            status (fst (get_books P store q)) = 400 \<and>
            body (fst (get_books P store q)) =
              MessageError ''Internal server error'' (CastError ''_id'') \<and>
            snd (get_books P store q) = store)"
proof (intro conjI impI)
  have t: "truthy (q_id q)" using assms by (simp add: truthy_def)
  {
    assume h: "wf_store store \<and> b \<in> set store \<and> castObjectId i = Inr (book_id b)"
    then have "lookup (book_id b) store = Some b" using lookup_member by simp
    then show "get_books P store q = (\<lparr> status = 200, body = OneBook b \<rparr>, store)"
      using assms h t by (simp add: get_books_modes id_mode_def findById_def)
  }
  {
    assume h: "castObjectId i = Inr oid \<and> oid \<notin> book_id ` set store"
    then have "lookup oid store = None" using lookup_None_iff by simp
    then show "get_books P store q =
        (\<lparr> status = 400, body = Message ''Book Not Found'' \<rparr>, store)"
      using assms h t by (simp add: get_books_modes id_mode_def findById_def)
  }
  {
    assume "isl (castObjectId i)"
    then have c: "castObjectId i = Inl (CastError ''_id'')" using castObjectId_error by simp
    show "status (fst (get_books P store q)) = 400"
      using assms t c by (simp add: get_books_modes id_mode_def findById_def)
    show "body (fst (get_books P store q)) =
        MessageError ''Internal server error'' (CastError ''_id'')"
      using assms t c by (simp add: get_books_modes id_mode_def findById_def)
    show "snd (get_books P store q) = store"
      using assms t c by (simp add: get_books_modes id_mode_def findById_def)
  }
qed

theorem get_books_by_id_witness:
  "get_books literal_platform sample_store
     \<lparr> q_page = None, q_query = None, q_id = Some ''64b7f0c2a1b2c3d4e5f60719'' \<rparr> =
     (\<lparr> status = 200,
        body = OneBook (sample_book 0x64b7f0c2a1b2c3d4e5f60719 ''Dune'' ''Frank Herbert'') \<rparr>,
      sample_store) \<and>
   get_books literal_platform sample_store
     \<lparr> q_page = None, q_query = None, q_id = Some ''64b7f0c2a1b2c3d4e5f607ff'' \<rparr> =
     (\<lparr> status = 400, body = Message ''Book Not Found'' \<rparr>, sample_store) \<and>
   get_books literal_platform sample_store
     \<lparr> q_page = None, q_query = None, q_id = Some ''invalid_id12'' \<rparr> =
     (\<lparr> status = 400, body = Message ''Book Not Found'' \<rparr>, sample_store) \<and>
   status (fst (get_books literal_platform sample_store
     \<lparr> q_page = None, q_query = None, q_id = Some ''invalid_id'' \<rparr>)) = 400"
proof -
  have m: "sample_book 0x64b7f0c2a1b2c3d4e5f60719 ''Dune'' ''Frank Herbert'' \<in> set sample_store"
    by (simp add: sample_store_def)
  have i: "book_id (sample_book 0x64b7f0c2a1b2c3d4e5f60719 ''Dune'' ''Frank Herbert'') =
             0x64b7f0c2a1b2c3d4e5f60719"
    by (simp add: sample_book_def)
  have n: "0x64b7f0c2a1b2c3d4e5f607ff \<notin> book_id ` set sample_store"
    by (simp add: sample_store_def sample_book_def)
  have n12: "0x696e76616c69645f69643132 \<notin> book_id ` set sample_store"
    by (simp add: sample_store_def sample_book_def)
  show ?thesis
    using get_books_by_id
            [of "\<lparr> q_page = None, q_query = None, q_id = Some ''64b7f0c2a1b2c3d4e5f60719'' \<rparr>"
                "''64b7f0c2a1b2c3d4e5f60719''" sample_store
                "sample_book 0x64b7f0c2a1b2c3d4e5f60719 ''Dune'' ''Frank Herbert''"
                literal_platform 0]
          get_books_by_id
            [of "\<lparr> q_page = None, q_query = None, q_id = Some ''64b7f0c2a1b2c3d4e5f607ff'' \<rparr>"
                "''64b7f0c2a1b2c3d4e5f607ff''" sample_store
                "sample_book 0 [] []" literal_platform "0x64b7f0c2a1b2c3d4e5f607ff"]
          get_books_by_id
            [of "\<lparr> q_page = None, q_query = None, q_id = Some ''invalid_id12'' \<rparr>"
                "''invalid_id12''" sample_store
                "sample_book 0 [] []" literal_platform "0x696e76616c69645f69643132"]
          get_books_by_id
            [of "\<lparr> q_page = None, q_query = None, q_id = Some ''invalid_id'' \<rparr>"
                "''invalid_id''" sample_store "sample_book 0 [] []" literal_platform 0]
          wf_sample_store m i n n12 cast_sample_id cast_unknown_id cast_twelve_bytes cast_invalid_id
    by simp
qed

text \<open>
  Claim C10. GET leaves the collection as it was, in each of its modes and whether it
  answers 200 or 400.
\<close>

theorem get_books_store_unchanged: "snd (get_books P store q) = store"
  by (simp add: get_books_def Let_def split: sum.split option.split)

theorem get_books_store_unchanged_witness:
  "snd (get_books literal_platform sample_store
          \<lparr> q_page = Some 2, q_query = Some ''sample'', q_id = Some ''invalid_id'' \<rparr>) =
     sample_store"
  using get_books_store_unchanged
          [of literal_platform sample_store
              "\<lparr> q_page = Some 2, q_query = Some ''sample'', q_id = Some ''invalid_id'' \<rparr>"]
  by simp

subsection \<open>Updating and deleting\<close>

text \<open>
  Claim C6, for updates whose date can be cast. For a well-formed identifier that no
  document has, DELETE answers 200 with a null book, and PUT does so whenever the
  publishedDate of the body is absent, empty or a valid date; the collection is
  unchanged by both, whatever the body.
\<close>

theorem update_delete_missing_id:
  assumes "castObjectId i = Inr oid" and "oid \<notin> book_id ` set store"
  shows "(castDate P (body_publishedDate b) \<noteq> BadDate \<longrightarrow>
            put_books P store i b =
              (\<lparr> status = 200, body = MessageBook ''Book updated'' None \<rparr>, store)) \<and>
         snd (put_books P store i b) = store \<and>
         delete_books store i =
           (\<lparr> status = 200, body = MessageBook ''Book deleted'' None \<rparr>, store)"
proof -
  have l: "lookup oid store = None" using assms(2) lookup_None_iff by simp
  have "castDate P (body_publishedDate b) \<noteq> BadDate \<longrightarrow>
          put_books P store i b =
            (\<lparr> status = 200, body = MessageBook ''Book updated'' None \<rparr>, store)"
    using assms(1) l by (simp add: put_books_def findByIdAndUpdate_def split: cast_date.split)
  moreover have "snd (put_books P store i b) = store"
    using assms(1) l by (simp add: put_books_def findByIdAndUpdate_def split: cast_date.split)
  moreover have "delete_books store i =
      (\<lparr> status = 200, body = MessageBook ''Book deleted'' None \<rparr>, store)"
    using assms(1) l by (simp add: delete_books_def findByIdAndDelete_def remove_first_absent)
  ultimately show ?thesis by blast
qed

theorem update_delete_missing_id_witness:
  "put_books literal_platform sample_store ''64b7f0c2a1b2c3d4e5f607ff''
     (sample_body \<lparr> body_publishedDate := Some ''2023-03-01'' \<rparr>) =
     (\<lparr> status = 200, body = MessageBook ''Book updated'' None \<rparr>, sample_store) \<and>
   delete_books sample_store ''64b7f0c2a1b2c3d4e5f607ff'' =
     (\<lparr> status = 200, body = MessageBook ''Book deleted'' None \<rparr>, sample_store)"
proof -
  have n: "0x64b7f0c2a1b2c3d4e5f607ff \<notin> book_id ` set sample_store"
    by (simp add: sample_store_def sample_book_def)
  have d: "castDate literal_platform
             (body_publishedDate (sample_body \<lparr> body_publishedDate := Some ''2023-03-01'' \<rparr>)) \<noteq> BadDate"
    by (simp add: castDate_def literal_platform_def)
  show ?thesis
    using update_delete_missing_id [OF cast_unknown_id n, of literal_platform
            "sample_body \<lparr> body_publishedDate := Some ''2023-03-01'' \<rparr>"] d
    by simp
qed

text \<open>
  The update is cast to the schema before the collection is asked: a publishedDate that
  is no date makes PUT answer 400 although the identifier is well-formed and unknown.
\<close>

theorem put_books_bad_date_counterexample:
  "castObjectId ''64b7f0c2a1b2c3d4e5f607ff'' = Inr 0x64b7f0c2a1b2c3d4e5f607ff \<and>
   0x64b7f0c2a1b2c3d4e5f607ff \<notin> book_id ` set sample_store \<and>
   put_books literal_platform sample_store ''64b7f0c2a1b2c3d4e5f607ff''
     \<lparr> body_title = Some ''Updated Book'', body_author = None, body_isbn = None,
       body_description = None, body_publishedDate = Some ''not a date'' \<rparr> =
     (\<lparr> status = 400,
        body = MessageError ''Internal server error'' (CastError ''publishedDate'') \<rparr>,
      sample_store)"
proof -
  have n: "0x64b7f0c2a1b2c3d4e5f607ff \<notin> book_id ` set sample_store"
    by (simp add: sample_store_def sample_book_def)
  have "castDate literal_platform (Some ''not a date'') = BadDate"
    by (simp add: castDate_def literal_platform_def)
  then show ?thesis
    using n cast_unknown_id by (simp add: put_books_def findByIdAndUpdate_def)
qed

text \<open>
  Claim C8. In a collection with distinct identifiers, deleting by the identifier of a
  document \<open>b\<close> answers 200 with \<open>b\<close> and leaves the collection without \<open>b\<close> and
  with every other document; fetching by the same identifier afterwards answers 400
  with the message "Book Not Found".
\<close>

theorem delete_then_get:
  assumes "wf_store store" and "b \<in> set store" and "castObjectId i = Inr (book_id b)"
    and "q_id q = Some i"
  shows "delete_books store i =
           (\<lparr> status = 200, body = MessageBook ''Book deleted'' (Some b) \<rparr>, removeAll b store) \<and>
         get_books P (removeAll b store) q =
           (\<lparr> status = 400, body = Message ''Book Not Found'' \<rparr>, removeAll b store) \<and>
         set (removeAll b store) = set store - {b}"
proof -
  have f: "remove_first (book_id b) store = removeAll b store"
    using assms(1,2) by (simp add: remove_first_filter filter_other_ids)
  have d: "delete_books store i =
      (\<lparr> status = 200, body = MessageBook ''Book deleted'' (Some b) \<rparr>, removeAll b store)"
    using assms(1,2,3) f by (simp add: delete_books_def findByIdAndDelete_def lookup_member)
  have "lookup (book_id b) (removeAll b store) = None"
    using lookup_filter_removed [of "book_id b" store] assms(1,2)
    by (simp add: filter_other_ids)
  moreover have "truthy (q_id q)" using assms(3,4) castObjectId_truthy by simp
  ultimately have "get_books P (removeAll b store) q =
      (\<lparr> status = 400, body = Message ''Book Not Found'' \<rparr>, removeAll b store)"
    using assms(3,4) by (simp add: get_books_modes id_mode_def findById_def)
  with d show ?thesis by simp
qed

theorem delete_then_get_witness:
  "delete_books sample_store ''64b7f0c2a1b2c3d4e5f60719'' =
     (\<lparr> status = 200,
        body = MessageBook ''Book deleted''
                 (Some (sample_book 0x64b7f0c2a1b2c3d4e5f60719 ''Dune'' ''Frank Herbert'')) \<rparr>,
      removeAll (sample_book 0x64b7f0c2a1b2c3d4e5f60719 ''Dune'' ''Frank Herbert'') sample_store) \<and>
   get_books literal_platform
     (removeAll (sample_book 0x64b7f0c2a1b2c3d4e5f60719 ''Dune'' ''Frank Herbert'') sample_store)
     \<lparr> q_page = None, q_query = None, q_id = Some ''64b7f0c2a1b2c3d4e5f60719'' \<rparr> =
     (\<lparr> status = 400, body = Message ''Book Not Found'' \<rparr>,
      removeAll (sample_book 0x64b7f0c2a1b2c3d4e5f60719 ''Dune'' ''Frank Herbert'') sample_store)"
proof -
  have m: "sample_book 0x64b7f0c2a1b2c3d4e5f60719 ''Dune'' ''Frank Herbert'' \<in> set sample_store"
    by (simp add: sample_store_def)
  have c: "castObjectId ''64b7f0c2a1b2c3d4e5f60719'' =
             Inr (book_id (sample_book 0x64b7f0c2a1b2c3d4e5f60719 ''Dune'' ''Frank Herbert''))"
    using cast_sample_id by (simp add: sample_book_def)
  show ?thesis
    using delete_then_get [OF wf_sample_store m c,
            of "\<lparr> q_page = None, q_query = None, q_id = Some ''64b7f0c2a1b2c3d4e5f60719'' \<rparr>"
               literal_platform]
    by simp
qed

subsection \<open>Status codes\<close>



end
